theory Spec2Isabelle
  imports Main
begin

section \<open>Data model\<close>

text \<open>
  The Go source \<^verbatim>\<open>main.go\<close> keeps its configuration in package-level variables that
  \<^verbatim>\<open>parseFlags\<close> fills once at startup. They are gathered in one record that every
  function takes as its first argument.
\<close>

record Config =
  daprTrustBundleNamespace :: string
  daprTrustBundleName :: string
  certSourceKey :: string
  certDestKey :: string
  keySourceKey :: string
  keyDestKey :: string

text \<open>The initial values of the package-level variables (lines 31 to 36).\<close>

definition defaults :: Config where
  "defaults =
     \<lparr>daprTrustBundleNamespace = '''',
      daprTrustBundleName = ''dapr-trust-bundle'',
      certSourceKey = ''tls.crt'',
      certDestKey = ''issuer.crt'',
      keySourceKey = ''tls.key'',
      keyDestKey = ''issuer.key''\<rparr>"

text \<open>\<^verbatim>\<open>client.ObjectKey\<close>, that is \<^verbatim>\<open>types.NamespacedName\<close>.\<close>

record ObjectKey =
  Namespace :: string
  Name :: string

text \<open>
  A Go \<^verbatim>\<open>[]byte\<close> is either the nil slice or a slice holding a byte sequence (possibly
  the empty one). A \<^typ>\<open>char\<close> of HOL is one byte, so a \<^typ>\<open>string\<close> is a byte
  sequence, which is also what a Go string is.
\<close>

datatype byte_slice = nil_slice | slice string

text \<open>The conversion \<^verbatim>\<open>string(b)\<close>: the bytes of the slice, none for the nil slice.\<close>

fun go_string :: "byte_slice \<Rightarrow> string" where
  "go_string nil_slice = []"
| "go_string (slice bs) = bs"

text \<open>
  \<^verbatim>\<open>map[string][]byte\<close>: a Go map value is nil (\<open>None\<close>) or a finite map. The field
  \<^verbatim>\<open>Data\<close> of a freshly allocated \<^verbatim>\<open>corev1.Secret\<close> is the nil map.
\<close>

type_synonym go_map = "(string \<rightharpoonup> byte_slice) option"

text \<open>
  The two-valued index expression \<^verbatim>\<open>v, ok := m[k]\<close>. On a nil map and on a missing key
  it yields the zero value of the element type, the nil slice, and \<open>ok = false\<close>.
\<close>

definition map_index :: "go_map \<Rightarrow> string \<Rightarrow> byte_slice \<times> bool" where
  "map_index m k =
     (case m of
        None \<Rightarrow> (nil_slice, False)
      | Some f \<Rightarrow> (case f k of None \<Rightarrow> (nil_slice, False) | Some v \<Rightarrow> (v, True)))"

text \<open>
  The assignment \<^verbatim>\<open>m[k] = v\<close>. Go panics with "assignment to entry in nil map" when
  \<open>m\<close> is nil; otherwise the entry is added or overwritten.
\<close>

definition map_assign :: "go_map \<Rightarrow> string \<Rightarrow> byte_slice \<Rightarrow> string + go_map" where
  "map_assign m k v =
     (case m of
        None \<Rightarrow> Inl ''assignment to entry in nil map''
      | Some f \<Rightarrow> Inr (Some (f(k \<mapsto> v))))"

text \<open>
  \<^verbatim>\<open>corev1.Secret\<close>: the resource version of its metadata and the payload \<^verbatim>\<open>Data\<close>.
  Every other field of the Kubernetes object lives in the extension part of the record,
  so that a statement over \<open>'m Secret_scheme\<close> covers them all.
\<close>

record Secret =
  ResourceVersion :: string
  Data :: go_map

section \<open>The decision functions\<close>

text \<open>\<^verbatim>\<open>isDaprTrustBundleSecret\<close> (lines 51 to 53).\<close>

definition isDaprTrustBundleSecret :: "Config \<Rightarrow> ObjectKey \<Rightarrow> bool" where
  "isDaprTrustBundleSecret cfg o' \<longleftrightarrow>
     Namespace o' = daprTrustBundleNamespace cfg \<and> Name o' = daprTrustBundleName cfg"

text \<open>
  \<^verbatim>\<open>needsDaprTrustBundleSecretUpdate\<close> (lines 55 to 61). The \<open>ok\<close> results of the two
  destination lookups are discarded, as the blank identifiers of the source do.
\<close>

definition needsDaprTrustBundleSecretUpdate :: "Config \<Rightarrow> 'm Secret_scheme \<Rightarrow> bool" where
  "needsDaprTrustBundleSecretUpdate cfg s =
     (let (tlsCrt, tlsCrtOk) = map_index (Data s) (certSourceKey cfg);
          (tlsKey, tlsKeyOk) = map_index (Data s) (keySourceKey cfg);
          (issuerCrt, _) = map_index (Data s) (certDestKey cfg);
          (issuerKey, _) = map_index (Data s) (keyDestKey cfg)
      in tlsCrtOk \<and> tlsKeyOk \<and>
         (go_string tlsCrt \<noteq> go_string issuerCrt \<or> go_string tlsKey \<noteq> go_string issuerKey))"

section \<open>Reconciliation\<close>

text \<open>
  The embedded \<^verbatim>\<open>client.Client\<close> belongs to the controller-runtime library. It is a
  parameter of the model: \<open>Get\<close> and \<open>Update\<close> are arbitrary functions of a world \<open>'w\<close>
  (the remote store and whatever else decides their outcome), returning the new world
  and either an error \<open>'e\<close> or their result.
\<close>

record ('w, 'e, 'm) Client =
  Get :: "ObjectKey \<Rightarrow> 'w \<Rightarrow> ('e + 'm Secret_scheme) \<times> 'w"
  Update :: "'m Secret_scheme \<Rightarrow> 'w \<Rightarrow> 'e option \<times> 'w"

text \<open>
  The error value \<open>Reconcile\<close> returns: the client's error as it is, or the one built by
  \<^verbatim>\<open>fmt.Errorf(format, err)\<close>.
\<close>

datatype 'e error = ClientError 'e | Errorf string 'e

text \<open>\<^verbatim>\<open>reconcile.Result\<close>; \<^verbatim>\<open>reconcile.Result{}\<close> is its zero value.\<close>

record Result =
  Requeue :: bool
  RequeueAfter :: int

definition Result_zero :: Result where
  "Result_zero = \<lparr>Requeue = False, RequeueAfter = 0\<rparr>"

text \<open>A call of \<open>Reconcile\<close> returns a result and an optional error, or panics.\<close>

datatype 'e outcome = Returned Result "'e error option" | Panicked string

text \<open>
  What a call does to the outside: log lines (\<open>Info\<close> with its verbosity, \<open>Error\<close> with
  the error logged) and the requests sent through the client, in the order issued.
\<close>

datatype ('e, 'm) event =
    LogInfo nat string
  | LogError 'e string
  | GetCall ObjectKey
  | UpdateCall "'m Secret_scheme"

text \<open>\<^verbatim>\<open>(*DaprSecretReconciler).Reconcile\<close> (lines 127 to 159).\<close>

definition Reconcile ::
  "('w, 'e, 'm) Client \<Rightarrow> Config \<Rightarrow> ObjectKey \<Rightarrow> 'w \<Rightarrow> 'e outcome \<times> ('e, 'm) event list \<times> 'w"
where
  "Reconcile a cfg req w =
     (let l0 = [LogInfo 4 ''DaprSecretReconciler.Reconcile ...''] in
      if \<not> isDaprTrustBundleSecret cfg req then
        (Returned Result_zero None, l0 @ [LogInfo 0 ''Avoid reconciling other secret''], w)
      else
        (case Get a req w of
           (Inl err, w1) \<Rightarrow>
             (Returned Result_zero (Some (ClientError err)),
              l0 @ [GetCall req, LogError err ''Failed to get secret''], w1)
         | (Inr s, w1) \<Rightarrow>
             let l1 = l0 @ [GetCall req] in
             if \<not> needsDaprTrustBundleSecretUpdate cfg s then
               (Returned Result_zero None, l1 @ [LogInfo 0 ''Already up-to-date''], w1)
             else
               (case map_assign (Data s) (certDestKey cfg)
                       (fst (map_index (Data s) (certSourceKey cfg))) of
                  Inl p \<Rightarrow> (Panicked p, l1, w1)
                | Inr d1 \<Rightarrow>
                    (case map_assign d1 (keyDestKey cfg)
                            (fst (map_index d1 (keySourceKey cfg))) of
                       Inl p \<Rightarrow> (Panicked p, l1, w1)
                     | Inr d2 \<Rightarrow>
                         let s' = s\<lparr>Data := d2\<rparr>; l2 = l1 @ [UpdateCall s'] in
                         (case Update a s' w1 of
                            (Some err, w2) \<Rightarrow>
                              (Returned Result_zero
                                 (Some (Errorf ''could not update Secret: %+v'' err)),
                               l2 @ [LogError err ''Failed to update secret''], w2)
                          | (None, w2) \<Rightarrow>
                              (Returned Result_zero None,
                               l2 @ [LogInfo 0 ''Successful reconciliation''], w2))))))"

text \<open>The requests of a trace: the payloads written and the identities read.\<close>

fun writes :: "('e, 'm) event list \<Rightarrow> 'm Secret_scheme list" where
  "writes [] = []"
| "writes (UpdateCall s # es) = s # writes es"
| "writes (_ # es) = writes es"

fun reads :: "('e, 'm) event list \<Rightarrow> ObjectKey list" where
  "reads [] = []"
| "reads (GetCall k # es) = k # reads es"
| "reads (_ # es) = reads es"

text \<open>A call failed when it returned an error or panicked.\<close>

definition failed :: "'e outcome \<Rightarrow> bool" where
  "failed out = (case out of Returned r e \<Rightarrow> e \<noteq> None | Panicked p \<Rightarrow> True)"

section \<open>The vocabulary of the specification\<close>

text \<open>
  The specification speaks of the fields of a payload: a field is present or absent, and
  a present field holds a byte sequence. The notions below are written from those words
  and not from the code; none of them uses a function of the embedding. The theorems
  relate them to what the code computes.
\<close>

text \<open>The entry stored under a field name, if there is one.\<close>

definition field :: "'m Secret_scheme \<Rightarrow> string \<Rightarrow> byte_slice option" where
  "field s k = (case Data s of None \<Rightarrow> None | Some f \<Rightarrow> f k)"

text \<open>A field is present when the payload has an entry under its name.\<close>

definition present :: "'m Secret_scheme \<Rightarrow> string \<Rightarrow> bool" where
  "present s k = (case Data s of None \<Rightarrow> False | Some f \<Rightarrow> f k \<noteq> None)"

text \<open>
  The byte sequence a field holds: none for an absent field, and for a present one the
  bytes of its entry, byte for byte (an entry that is the nil slice holds no byte).
\<close>

definition stored_bytes :: "'m Secret_scheme \<Rightarrow> string \<Rightarrow> string option" where
  "stored_bytes s k =
     (case Data s of
        None \<Rightarrow> None
      | Some f \<Rightarrow>
          (case f k of
             None \<Rightarrow> None
           | Some nil_slice \<Rightarrow> Some []
           | Some (slice bs) \<Rightarrow> Some bs))"

text \<open>
  \<open>NeedsUpdate\<close> as the specification words it: both source fields are present, and the
  destination certificate differs from the source certificate or the destination key
  differs from the source key. The comparison is exact equality of byte sequences, and a
  missing destination never equals a present source: \<open>None\<close> differs from every
  \<open>Some bs\<close>.
\<close>

definition spec_NeedsUpdate :: "Config \<Rightarrow> 'm Secret_scheme \<Rightarrow> bool" where
  "spec_NeedsUpdate cfg s \<longleftrightarrow>
     stored_bytes s (certSourceKey cfg) \<noteq> None \<and> stored_bytes s (keySourceKey cfg) \<noteq> None \<and>
     (stored_bytes s (certDestKey cfg) \<noteq> stored_bytes s (certSourceKey cfg) \<or>
      stored_bytes s (keyDestKey cfg) \<noteq> stored_bytes s (keySourceKey cfg))"

text \<open>
  The other reading of the value of a field, in which an absent field counts as holding
  the empty byte sequence.
\<close>

definition field_value :: "'m Secret_scheme \<Rightarrow> string \<Rightarrow> string" where
  "field_value s k = (case stored_bytes s k of None \<Rightarrow> [] | Some bs \<Rightarrow> bs)"

section \<open>Configurations, payloads and clients of the examples\<close>

text \<open>
  The default configuration once \<^verbatim>\<open>main\<close> has filled in the namespace, from the flag
  \<^verbatim>\<open>--watch-secret-namespace\<close> or from \<^verbatim>\<open>POD_NAMESPACE\<close>.
\<close>

definition watch_config :: Config where
  "watch_config = defaults\<lparr>daprTrustBundleNamespace := ''dapr-system''\<rparr>"

definition watched_key :: ObjectKey where
  "watched_key = \<lparr>Namespace = ''dapr-system'', Name = ''dapr-trust-bundle''\<rparr>"

text \<open>A configuration started with \<^verbatim>\<open>--dest-key-secret-key=issuer.crt\<close>.\<close>

definition clashing_config :: Config where
  "clashing_config = watch_config\<lparr>keyDestKey := ''issuer.crt''\<rparr>"

text \<open>
  A configuration started with \<^verbatim>\<open>--dest-cert-secret-key=tls.crt\<close> and
  \<^verbatim>\<open>--dest-key-secret-key=tls.key\<close>.
\<close>

definition aliased_config :: Config where
  "aliased_config = watch_config\<lparr>certDestKey := ''tls.crt'', keyDestKey := ''tls.key''\<rparr>"

text \<open>Scenario A of the specification: empty destination fields.\<close>

definition scenario_A :: Secret where
  "scenario_A =
     \<lparr>ResourceVersion = ''41'',
      Data = Some [''tls.crt'' \<mapsto> slice ''C1'', ''tls.key'' \<mapsto> slice ''K1'',
                   ''issuer.crt'' \<mapsto> slice [], ''issuer.key'' \<mapsto> slice []]\<rparr>"

text \<open>Scenario B of the specification: destination fields equal to the source fields.\<close>

definition scenario_B :: Secret where
  "scenario_B =
     \<lparr>ResourceVersion = ''42'',
      Data = Some [''tls.crt'' \<mapsto> slice ''C1'', ''tls.key'' \<mapsto> slice ''K1'',
                   ''issuer.crt'' \<mapsto> slice ''C1'', ''issuer.key'' \<mapsto> slice ''K1'']\<rparr>"

text \<open>A payload with source fields, no destination field, and one unrelated field.\<close>

definition sources_only :: Secret where
  "sources_only =
     \<lparr>ResourceVersion = ''7'',
      Data = Some [''tls.crt'' \<mapsto> slice ''C1'', ''tls.key'' \<mapsto> slice ''K1'',
                   ''ca.crt'' \<mapsto> slice ''ROOT'']\<rparr>"

text \<open>A payload whose source fields are present and empty, with no destination field.\<close>

definition empty_sources :: Secret where
  "empty_sources =
     \<lparr>ResourceVersion = ''8'',
      Data = Some [''tls.crt'' \<mapsto> slice [], ''tls.key'' \<mapsto> slice []]\<rparr>"

text \<open>A payload with the key but not the certificate.\<close>

definition key_only :: Secret where
  "key_only = \<lparr>ResourceVersion = ''9'', Data = Some [''tls.key'' \<mapsto> slice ''K1'']\<rparr>"

text \<open>
  A payload whose source certificate is present and empty and whose destination
  certificate is absent, the key pair being equal.
\<close>

definition empty_cert :: Secret where
  "empty_cert =
     \<lparr>ResourceVersion = ''11'',
      Data = Some [''tls.crt'' \<mapsto> slice [], ''tls.key'' \<mapsto> slice ''K1'',
                   ''issuer.key'' \<mapsto> slice ''K1'']\<rparr>"

text \<open>A payload whose certificates agree and whose keys differ in their last byte.\<close>

definition key_differs :: Secret where
  "key_differs =
     \<lparr>ResourceVersion = ''12'',
      Data = Some [''tls.crt'' \<mapsto> slice ''C1'', ''tls.key'' \<mapsto> slice ''K2'',
                   ''issuer.crt'' \<mapsto> slice ''C1'', ''issuer.key'' \<mapsto> slice ''K1'']\<rparr>"

text \<open>A configuration started with \<^verbatim>\<open>--dest-cert-secret-key=tls.key\<close>.\<close>

definition overlapping_config :: Config where
  "overlapping_config = watch_config\<lparr>certDestKey := ''tls.key''\<rparr>"

text \<open>A configuration started with \<^verbatim>\<open>--dest-key-secret-key=tls.crt\<close>.\<close>

definition crossed_config :: Config where
  "crossed_config = watch_config\<lparr>keyDestKey := ''tls.crt''\<rparr>"

text \<open>A Secret without any data: its \<^verbatim>\<open>Data\<close> is the nil map.\<close>

definition no_data :: Secret where
  "no_data = \<lparr>ResourceVersion = ''10'', Data = None\<rparr>"

text \<open>
  A store holding one object, which is the world: a read returns it and leaves the store
  as it is, a write replaces it when it carries the stored resource version and is
  refused otherwise.
\<close>

definition store_client :: "(Secret, string, unit) Client" where
  "store_client =
     \<lparr>Get = (\<lambda>k w. (Inr w, w)),
      Update = (\<lambda>s w. if ResourceVersion s = ResourceVersion w then (None, s)
                       else (Some ''conflict'', w))\<rparr>"

text \<open>A store whose reads fail.\<close>

definition unreachable_client :: "(Secret, string, unit) Client" where
  "unreachable_client =
     \<lparr>Get = (\<lambda>k w. (Inl ''connection refused'', w)),
      Update = (\<lambda>s w. (Some ''connection refused'', w))\<rparr>"

text \<open>A store that serves reads and refuses every write.\<close>

definition conflicting_client :: "(Secret, string, unit) Client" where
  "conflicting_client =
     \<lparr>Get = (\<lambda>k w. (Inr w, w)),
      Update = (\<lambda>s w. (Some ''conflict'', w))\<rparr>"

section \<open>Lemmas about the embedding\<close>

text \<open>The two results of an index expression, in the words of the specification.\<close>

lemma map_index_present: "snd (map_index (Data s) k) = present s k"
  by (simp add: map_index_def present_def split: option.splits)

lemma map_index_value: "go_string (fst (map_index (Data s) k)) = field_value s k"
  by (simp add: map_index_def field_value_def stored_bytes_def
      split: option.splits byte_slice.splits)

lemma absent_field_value: "\<not> present s k \<Longrightarrow> field_value s k = []"
  by (auto simp: present_def field_value_def stored_bytes_def split: option.splits)

text \<open>The assignment into a map panics exactly on the nil map.\<close>

lemma map_assign_nil: "map_assign None k v = Inl ''assignment to entry in nil map''"
  by (simp add: map_assign_def)

lemma map_assign_Some: "map_assign (Some f) k v = Inr (Some (f(k \<mapsto> v)))"
  by (simp add: map_assign_def)

text \<open>The body of \<open>needsDaprTrustBundleSecretUpdate\<close> without its local bindings.\<close>

lemma needs_unfold:
  "needsDaprTrustBundleSecretUpdate cfg s \<longleftrightarrow>
     snd (map_index (Data s) (certSourceKey cfg)) \<and>
     snd (map_index (Data s) (keySourceKey cfg)) \<and>
     (go_string (fst (map_index (Data s) (certSourceKey cfg)))
        \<noteq> go_string (fst (map_index (Data s) (certDestKey cfg))) \<or>
      go_string (fst (map_index (Data s) (keySourceKey cfg)))
        \<noteq> go_string (fst (map_index (Data s) (keyDestKey cfg))))"
  by (simp add: needsDaprTrustBundleSecretUpdate_def split: prod.splits)

lemma needs_Data: "needsDaprTrustBundleSecretUpdate cfg s \<Longrightarrow> \<exists>m. Data s = Some m"
  by (auto simp: needs_unfold map_index_def split: option.splits)

text \<open>
  The run of \<open>Reconcile\<close> on a watched object that needs an update: the one payload it
  writes is the payload read, with the two assignments of lines 148 and 149 applied in
  that order.
\<close>

lemma Reconcile_write_path:
  assumes "isDaprTrustBundleSecret cfg req" and "Get a req w = (Inr s, w1)"
    and "needsDaprTrustBundleSecretUpdate cfg s"
  shows "\<exists>m. Data s = Some m \<and>
     writes (fst (snd (Reconcile a cfg req w))) =
       [s\<lparr>Data := Some (m(certDestKey cfg \<mapsto> fst (map_index (Some m) (certSourceKey cfg)),
                          keyDestKey cfg \<mapsto>
                            fst (map_index
                                  (Some (m(certDestKey cfg \<mapsto>
                                             fst (map_index (Some m) (certSourceKey cfg)))))
                                  (keySourceKey cfg))))\<rparr>]"
proof -
  from needs_Data[OF assms(3)] obtain m where m: "Data s = Some m" by blast
  show ?thesis using assms m
    by (simp add: Reconcile_def Let_def map_assign_def split: prod.splits option.splits)
qed

text \<open>The run of \<open>Reconcile\<close> when the payload read needs no update.\<close>

lemma Reconcile_no_write_path:
  assumes "Get a req w = (Inr s, w1)" and "\<not> needsDaprTrustBundleSecretUpdate cfg s"
  shows "Reconcile a cfg req w =
     (if isDaprTrustBundleSecret cfg req
      then (Returned Result_zero None,
            [LogInfo 4 ''DaprSecretReconciler.Reconcile ...'', GetCall req,
             LogInfo 0 ''Already up-to-date''], w1)
      else (Returned Result_zero None,
            [LogInfo 4 ''DaprSecretReconciler.Reconcile ...'',
             LogInfo 0 ''Avoid reconciling other secret''], w))"
  using assms by (simp add: Reconcile_def Let_def)

text \<open>Evaluation of the examples.\<close>

lemmas config_defs =
  watch_config_def clashing_config_def aliased_config_def overlapping_config_def
  crossed_config_def defaults_def

lemmas payload_defs =
  scenario_A_def scenario_B_def sources_only_def empty_sources_def key_only_def no_data_def
  empty_cert_def key_differs_def

lemmas client_defs = store_client_def unreachable_client_def conflicting_client_def

lemmas spec_defs = field_def present_def field_value_def stored_bytes_def

section \<open>Properties of the decision functions\<close>

text \<open>
  Claim C1, as amended. For every payload, \<open>needsDaprTrustBundleSecretUpdate\<close> returns
  true if and only if both source fields are present and the value of the destination
  certificate differs from the value of the source certificate or the value of the
  destination key differs from the value of the source key, where an absent destination
  field counts as holding the empty byte sequence and values are compared by exact
  equality of byte sequences. In particular it returns false when a source field is
  absent. Whenever it returns true the specification's \<open>NeedsUpdate\<close> is true as well,
  and on a payload with both destination fields present the two agree.
\<close>

theorem needsUpdate_iff:
  "(needsDaprTrustBundleSecretUpdate cfg s \<longleftrightarrow>
      present s (certSourceKey cfg) \<and> present s (keySourceKey cfg) \<and>
      (field_value s (certDestKey cfg) \<noteq> field_value s (certSourceKey cfg) \<or>
       field_value s (keyDestKey cfg) \<noteq> field_value s (keySourceKey cfg)))
   \<and> (\<not> present s (certSourceKey cfg) \<or> \<not> present s (keySourceKey cfg) \<longrightarrow>
        \<not> needsDaprTrustBundleSecretUpdate cfg s)
   \<and> (needsDaprTrustBundleSecretUpdate cfg s \<longrightarrow> spec_NeedsUpdate cfg s)
   \<and> (present s (certDestKey cfg) \<and> present s (keyDestKey cfg) \<longrightarrow>
        (needsDaprTrustBundleSecretUpdate cfg s \<longleftrightarrow> spec_NeedsUpdate cfg s))"
proof -
  have p: "present s k \<longleftrightarrow> stored_bytes s k \<noteq> None" for k
    by (simp add: present_def stored_bytes_def split: option.splits byte_slice.splits)
  have code: "needsDaprTrustBundleSecretUpdate cfg s \<longleftrightarrow>
      present s (certSourceKey cfg) \<and> present s (keySourceKey cfg) \<and>
      (field_value s (certDestKey cfg) \<noteq> field_value s (certSourceKey cfg) \<or>
       field_value s (keyDestKey cfg) \<noteq> field_value s (keySourceKey cfg))"
    unfolding needs_unfold map_index_present map_index_value by auto
  have up: "spec_NeedsUpdate cfg s" if "needsDaprTrustBundleSecretUpdate cfg s"
    using that unfolding code spec_NeedsUpdate_def p field_value_def
    by (auto split: option.splits)
  have down: "needsDaprTrustBundleSecretUpdate cfg s"
    if "present s (certDestKey cfg)" "present s (keyDestKey cfg)" "spec_NeedsUpdate cfg s"
    using that unfolding code spec_NeedsUpdate_def p field_value_def
    by (auto split: option.splits)
  from code up down show ?thesis by blast
qed

text \<open>
  Scenario A needs an update, scenario B does not, a payload whose keys differ in one
  byte does, and a payload without the source certificate does not.
\<close>

theorem needsUpdate_iff_witness:
  "needsDaprTrustBundleSecretUpdate watch_config scenario_A
   \<and> spec_NeedsUpdate watch_config scenario_A
   \<and> \<not> needsDaprTrustBundleSecretUpdate watch_config scenario_B
   \<and> field_value key_differs (keyDestKey watch_config) = ''K1''
   \<and> field_value key_differs (keySourceKey watch_config) = ''K2''
   \<and> needsDaprTrustBundleSecretUpdate watch_config key_differs
   \<and> \<not> present key_only (certSourceKey watch_config)
   \<and> \<not> needsDaprTrustBundleSecretUpdate watch_config key_only"
  using needsUpdate_iff [of watch_config scenario_A]
    needsUpdate_iff [of watch_config scenario_B]
    needsUpdate_iff [of watch_config key_differs]
    needsUpdate_iff [of watch_config key_only]
  by (simp add: config_defs payload_defs present_def field_value_def stored_bytes_def)

text \<open>
  The unamended wording fails on a payload whose source certificate is present and empty
  and whose destination certificate is absent, the keys being equal: the specification's
  \<open>NeedsUpdate\<close> is true, since the missing destination differs from the present source,
  and the function returns false.
\<close>

theorem needsUpdate_spec_counterexample:
  "present empty_cert (certSourceKey defaults)
   \<and> present empty_cert (keySourceKey defaults)
   \<and> stored_bytes empty_cert (certDestKey defaults) \<noteq> stored_bytes empty_cert (certSourceKey defaults)
   \<and> spec_NeedsUpdate defaults empty_cert
   \<and> \<not> needsDaprTrustBundleSecretUpdate defaults empty_cert"
  by (simp add: needs_unfold map_index_def spec_NeedsUpdate_def stored_bytes_def present_def
      config_defs payload_defs)

text \<open>
  Claim C2, as amended. When both source fields are present and a destination field is
  absent, \<open>needsDaprTrustBundleSecretUpdate\<close> returns true provided the source field paired
  with that absent destination field holds a non-empty byte sequence. The lookup of an
  absent destination yields the nil slice, which converts to the empty string, so an
  absent destination equals a present source that is empty.
\<close>

theorem absent_dest_needs_update:
  assumes "present s (certSourceKey cfg)" and "present s (keySourceKey cfg)"
    and "(\<not> present s (certDestKey cfg) \<and> field_value s (certSourceKey cfg) \<noteq> [])
       \<or> (\<not> present s (keyDestKey cfg) \<and> field_value s (keySourceKey cfg) \<noteq> [])"
  shows "needsDaprTrustBundleSecretUpdate cfg s"
  using assms absent_field_value [of s "certDestKey cfg"]
    absent_field_value [of s "keyDestKey cfg"]
  unfolding needs_unfold map_index_present map_index_value by metis

text \<open>A payload with both source fields filled and no destination field needs an update.\<close>

theorem absent_dest_needs_update_witness:
  "present sources_only (certSourceKey watch_config)
   \<and> present sources_only (keySourceKey watch_config)
   \<and> \<not> present sources_only (certDestKey watch_config)
   \<and> field_value sources_only (certSourceKey watch_config) \<noteq> []
   \<and> needsDaprTrustBundleSecretUpdate watch_config sources_only"
proof -
  have h1: "present sources_only (certSourceKey watch_config)"
    and h2: "present sources_only (keySourceKey watch_config)"
    and h3: "\<not> present sources_only (certDestKey watch_config)"
    and h4: "field_value sources_only (certSourceKey watch_config) \<noteq> []"
    by (simp_all add: config_defs payload_defs spec_defs)
  from absent_dest_needs_update [of sources_only watch_config] h1 h2 h3 h4
  show ?thesis by blast
qed

text \<open>
  The unamended wording fails on the payload whose two source fields are present and
  empty and whose destination fields are absent: no update is asked for.
\<close>

theorem absent_dest_counterexample:
  "present empty_sources (certSourceKey defaults)
   \<and> present empty_sources (keySourceKey defaults)
   \<and> \<not> present empty_sources (certDestKey defaults)
   \<and> \<not> present empty_sources (keyDestKey defaults)
   \<and> \<not> needsDaprTrustBundleSecretUpdate defaults empty_sources"
  by (simp add: needs_unfold map_index_def config_defs payload_defs spec_defs)

text \<open>
  Claim C3. \<open>isDaprTrustBundleSecret\<close> returns true if and only if the identity is the
  configured pair of namespace and name; an identity with another namespace or with
  another name yields false.
\<close>

theorem isDaprTrustBundleSecret_iff:
  "(isDaprTrustBundleSecret cfg (k::ObjectKey) \<longleftrightarrow>
      k = \<lparr>Namespace = daprTrustBundleNamespace cfg, Name = daprTrustBundleName cfg\<rparr>)
   \<and> (Namespace k \<noteq> daprTrustBundleNamespace cfg \<longrightarrow> \<not> isDaprTrustBundleSecret cfg k)
   \<and> (Name k \<noteq> daprTrustBundleName cfg \<longrightarrow> \<not> isDaprTrustBundleSecret cfg k)"
  by (cases k) (auto simp: isDaprTrustBundleSecret_def)

text \<open>
  The watched identity is accepted; the same name in another namespace and another name
  in the same namespace are not.
\<close>

theorem isDaprTrustBundleSecret_iff_witness:
  "isDaprTrustBundleSecret watch_config watched_key
   \<and> \<not> isDaprTrustBundleSecret watch_config
         \<lparr>Namespace = ''default'', Name = ''dapr-trust-bundle''\<rparr>
   \<and> \<not> isDaprTrustBundleSecret watch_config
         \<lparr>Namespace = ''dapr-system'', Name = ''other''\<rparr>"
  using isDaprTrustBundleSecret_iff [of watch_config watched_key]
    isDaprTrustBundleSecret_iff
      [of watch_config "\<lparr>Namespace = ''default'', Name = ''dapr-trust-bundle''\<rparr>"]
    isDaprTrustBundleSecret_iff
      [of watch_config "\<lparr>Namespace = ''dapr-system'', Name = ''other''\<rparr>"]
  by (simp add: config_defs watched_key_def)

section \<open>Properties of Reconcile\<close>

text \<open>A payload whose destination values equal its source values needs no update.\<close>

lemma synchronized_needs_no_update:
  assumes "field_value s (certDestKey cfg) = field_value s (certSourceKey cfg)"
    and "field_value s (keyDestKey cfg) = field_value s (keySourceKey cfg)"
  shows "\<not> needsDaprTrustBundleSecretUpdate cfg s"
  using assms by (simp add: needs_unfold map_index_value)

text \<open>
  Claim C4. When the payload fetched needs no update, as is the case for a synchronized
  payload by the lemma above, \<open>Reconcile\<close> returns success and issues no write. When moreover the read leaves the store as it is, the call leaves it so too, and
  a second call right after the first returns success and issues no write either.
\<close>

theorem Reconcile_steady_state:
  assumes "Get a req w = (Inr s, w1)" and "\<not> needsDaprTrustBundleSecretUpdate cfg s"
  shows "fst (Reconcile a cfg req w) = Returned Result_zero None
     \<and> writes (fst (snd (Reconcile a cfg req w))) = []
     \<and> (w1 = w \<longrightarrow>
          snd (snd (Reconcile a cfg req w)) = w
        \<and> fst (Reconcile a cfg req (snd (snd (Reconcile a cfg req w))))
            = Returned Result_zero None
        \<and> writes (fst (snd (Reconcile a cfg req (snd (snd (Reconcile a cfg req w)))))) = [])"
  by (simp add: Reconcile_no_write_path[OF assms])

text \<open>Scenario B: no write, in the first call and in the one after it.\<close>

theorem Reconcile_steady_state_witness:
  "Get store_client watched_key scenario_B = (Inr scenario_B, scenario_B)
   \<and> \<not> needsDaprTrustBundleSecretUpdate watch_config scenario_B
   \<and> fst (Reconcile store_client watch_config watched_key scenario_B) = Returned Result_zero None
   \<and> writes (fst (snd (Reconcile store_client watch_config watched_key scenario_B))) = []
   \<and> writes (fst (snd (Reconcile store_client watch_config watched_key
        (snd (snd (Reconcile store_client watch_config watched_key scenario_B)))))) = []"
proof -
  have g: "Get store_client watched_key scenario_B = (Inr scenario_B, scenario_B)"
    by (simp add: store_client_def)
  have n: "\<not> needsDaprTrustBundleSecretUpdate watch_config scenario_B"
    by (rule synchronized_needs_no_update) (simp_all add: config_defs payload_defs spec_defs)
  from Reconcile_steady_state [OF g n] g n show ?thesis by blast
qed

text \<open>
  Claim C5, as amended. In a configuration whose destination certificate field name
  differs from the destination key field name and from the source key field name (the
  default configuration is one), for every watched payload that needs an update
  \<open>Reconcile\<close> issues exactly one write, and in the payload written the destination
  certificate field holds the value the source certificate field had and the destination
  key field holds the value the source key field had. Both are overwritten, whichever of
  the two pairs differed.
\<close>

theorem Reconcile_copies_pair:
  assumes "isDaprTrustBundleSecret cfg req" and "Get a req w = (Inr s, w1)"
    and "needsDaprTrustBundleSecretUpdate cfg s"
    and "certDestKey cfg \<noteq> keyDestKey cfg" and "certDestKey cfg \<noteq> keySourceKey cfg"
  shows "\<exists>s'. writes (fst (snd (Reconcile a cfg req w))) = [s']
     \<and> field s (certSourceKey cfg) \<noteq> None \<and> field s (keySourceKey cfg) \<noteq> None
     \<and> field s' (certDestKey cfg) = field s (certSourceKey cfg)
     \<and> field s' (keyDestKey cfg) = field s (keySourceKey cfg)"
proof -
  from Reconcile_write_path[OF assms(1-3)] obtain m where
    m: "Data s = Some m" and
    wr: "writes (fst (snd (Reconcile a cfg req w))) =
       [s\<lparr>Data := Some (m(certDestKey cfg \<mapsto> fst (map_index (Some m) (certSourceKey cfg)),
                          keyDestKey cfg \<mapsto>
                            fst (map_index
                                  (Some (m(certDestKey cfg \<mapsto>
                                             fst (map_index (Some m) (certSourceKey cfg)))))
                                  (keySourceKey cfg))))\<rparr>]"
    by blast
  from assms(3) m have src: "m (certSourceKey cfg) \<noteq> None" "m (keySourceKey cfg) \<noteq> None"
    by (auto simp: needs_unfold map_index_def split: option.splits)
  show ?thesis
    unfolding wr using m src assms(4,5)
    by (auto simp: field_def map_index_def split: option.splits)
qed

text \<open>
  Scenario A: one write, whose payload has \<open>issuer.crt = C1\<close> and \<open>issuer.key = K1\<close>
  beside the unchanged \<open>tls.crt = C1\<close> and \<open>tls.key = K1\<close>, and which the store holds
  afterwards.
\<close>

theorem Reconcile_copies_pair_witness:
  "isDaprTrustBundleSecret watch_config watched_key
   \<and> Get store_client watched_key scenario_A = (Inr scenario_A, scenario_A)
   \<and> needsDaprTrustBundleSecretUpdate watch_config scenario_A
   \<and> certDestKey watch_config \<noteq> keyDestKey watch_config
   \<and> certDestKey watch_config \<noteq> keySourceKey watch_config
   \<and> length (writes (fst (snd (Reconcile store_client watch_config watched_key scenario_A)))) = 1
   \<and> field (hd (writes (fst (snd (Reconcile store_client watch_config watched_key scenario_A)))))
        ''issuer.crt'' = Some (slice ''C1'')
   \<and> field (hd (writes (fst (snd (Reconcile store_client watch_config watched_key scenario_A)))))
        ''issuer.key'' = Some (slice ''K1'')
   \<and> field (snd (snd (Reconcile store_client watch_config watched_key scenario_A)))
        ''tls.crt'' = Some (slice ''C1'')
   \<and> field (snd (snd (Reconcile store_client watch_config watched_key scenario_A)))
        ''tls.key'' = Some (slice ''K1'')
   \<and> snd (snd (Reconcile store_client watch_config watched_key scenario_A))
       = hd (writes (fst (snd (Reconcile store_client watch_config watched_key scenario_A))))"
proof -
  have h1: "isDaprTrustBundleSecret watch_config watched_key"
    by (simp add: isDaprTrustBundleSecret_def config_defs watched_key_def)
  have h2: "Get store_client watched_key scenario_A = (Inr scenario_A, scenario_A)"
    by (simp add: store_client_def)
  have h3: "needsDaprTrustBundleSecretUpdate watch_config scenario_A"
    by (simp add: needs_unfold map_index_def config_defs payload_defs)
  have h4: "certDestKey watch_config \<noteq> keyDestKey watch_config"
    and h5: "certDestKey watch_config \<noteq> keySourceKey watch_config"
    by (simp_all add: config_defs)
  have k: "certDestKey watch_config = ''issuer.crt''" "keyDestKey watch_config = ''issuer.key''"
    "field scenario_A (certSourceKey watch_config) = Some (slice ''C1'')"
    "field scenario_A (keySourceKey watch_config) = Some (slice ''K1'')"
    by (simp_all add: config_defs payload_defs field_def)
  have after: "field (snd (snd (Reconcile store_client watch_config watched_key scenario_A)))
        ''tls.crt'' = Some (slice ''C1'')"
    "field (snd (snd (Reconcile store_client watch_config watched_key scenario_A)))
        ''tls.key'' = Some (slice ''K1'')"
    "snd (snd (Reconcile store_client watch_config watched_key scenario_A))
       = hd (writes (fst (snd (Reconcile store_client watch_config watched_key scenario_A))))"
    by (simp_all add: Reconcile_def needs_unfold isDaprTrustBundleSecret_def Let_def
        map_index_def map_assign_def store_client_def scenario_A_def field_def config_defs
        watched_key_def)
  from Reconcile_copies_pair [OF h1 h2 h3 h4 h5] h1 h2 h3 h4 h5 after show ?thesis
    unfolding k by auto
qed

text \<open>
  The unamended wording fails in a configuration that names \<open>issuer.crt\<close> as both
  destinations: line 149 overwrites what line 148 stored, so the one payload written
  holds the source key \<open>K1\<close>, not the source certificate \<open>C1\<close>, in the destination
  certificate field.
\<close>

theorem Reconcile_copies_pair_counterexample:
  "isDaprTrustBundleSecret clashing_config watched_key
   \<and> Get store_client watched_key sources_only = (Inr sources_only, sources_only)
   \<and> needsDaprTrustBundleSecretUpdate clashing_config sources_only
   \<and> field sources_only (certSourceKey clashing_config) = Some (slice ''C1'')
   \<and> length (writes (fst (snd (Reconcile store_client clashing_config watched_key sources_only))))
       = 1
   \<and> field (hd (writes (fst (snd (Reconcile store_client clashing_config watched_key
                                    sources_only)))))
        (certDestKey clashing_config) = Some (slice ''K1'')"
  by (simp add: Reconcile_def needs_unfold map_index_def map_assign_def
      isDaprTrustBundleSecret_def Let_def config_defs payload_defs client_defs watched_key_def
      field_def)

text \<open>
  Claim C6. For an identity that is not the configured one, \<open>Reconcile\<close> returns success,
  issues no read and no write, and leaves the store as it is.
\<close>

theorem Reconcile_skips_other:
  assumes "\<not> isDaprTrustBundleSecret cfg req"
  shows "fst (Reconcile a cfg req w) = Returned Result_zero None
     \<and> reads (fst (snd (Reconcile a cfg req w))) = []
     \<and> writes (fst (snd (Reconcile a cfg req w))) = []
     \<and> snd (snd (Reconcile a cfg req w)) = w"
  using assms by (simp add: Reconcile_def)

text \<open>Scenario C: the trust bundle's name in another namespace.\<close>

theorem Reconcile_skips_other_witness:
  "\<not> isDaprTrustBundleSecret watch_config \<lparr>Namespace = ''default'', Name = ''dapr-trust-bundle''\<rparr>
   \<and> fst (Reconcile store_client watch_config
            \<lparr>Namespace = ''default'', Name = ''dapr-trust-bundle''\<rparr> scenario_A)
       = Returned Result_zero None
   \<and> reads (fst (snd (Reconcile store_client watch_config
            \<lparr>Namespace = ''default'', Name = ''dapr-trust-bundle''\<rparr> scenario_A))) = []
   \<and> writes (fst (snd (Reconcile store_client watch_config
            \<lparr>Namespace = ''default'', Name = ''dapr-trust-bundle''\<rparr> scenario_A))) = []"
proof -
  have h: "\<not> isDaprTrustBundleSecret watch_config
             \<lparr>Namespace = ''default'', Name = ''dapr-trust-bundle''\<rparr>"
    by (simp add: isDaprTrustBundleSecret_def config_defs)
  from Reconcile_skips_other [OF h, of store_client scenario_A] h show ?thesis by blast
qed

text \<open>
  Claim C7. \<open>Reconcile\<close> fails if and only if the read it issued failed or the write it
  issued failed (a call for another identity issues neither). After a failed read no
  write is issued, and in no case is a request repeated: a call issues at most one read
  and at most one write.
\<close>

theorem Reconcile_failure_iff:
  "(failed (fst (Reconcile a cfg req w)) \<longleftrightarrow>
      isDaprTrustBundleSecret cfg req \<and>
      ((\<exists>e w1. Get a req w = (Inl e, w1)) \<or>
       (\<exists>s w1 s' e w2. Get a req w = (Inr s, w1) \<and>
           writes (fst (snd (Reconcile a cfg req w))) = [s'] \<and>
           Update a s' w1 = (Some e, w2))))
   \<and> ((\<exists>e w1. Get a req w = (Inl e, w1)) \<longrightarrow> writes (fst (snd (Reconcile a cfg req w))) = [])
   \<and> length (reads (fst (snd (Reconcile a cfg req w)))) \<le> 1
   \<and> length (writes (fst (snd (Reconcile a cfg req w)))) \<le> 1"
proof (cases "isDaprTrustBundleSecret cfg req")
  case False
  then show ?thesis by (simp add: Reconcile_def failed_def)
next
  case watched: True
  obtain g w1 where g: "Get a req w = (g, w1)" by (cases "Get a req w")
  show ?thesis
  proof (cases g)
    case (Inl e)
    with g watched show ?thesis by (simp add: Reconcile_def failed_def)
  next
    case (Inr s)
    show ?thesis
    proof (cases "needsDaprTrustBundleSecretUpdate cfg s")
      case False
      with g Inr watched show ?thesis by (simp add: Reconcile_def failed_def)
    next
      case True
      from needs_Data[OF True] obtain m where m: "Data s = Some m" by blast
      show ?thesis using g Inr watched True m
        by (auto simp: Reconcile_def Let_def failed_def map_assign_def
            split: prod.splits option.splits)
    qed
  qed
qed

text \<open>
  A failed read makes the call fail without a write, a refused write makes it fail
  (scenario D), and a call that needs no write on a store that serves the read succeeds.
\<close>

theorem Reconcile_failure_iff_witness:
  "failed (fst (Reconcile unreachable_client watch_config watched_key scenario_A))
   \<and> writes (fst (snd (Reconcile unreachable_client watch_config watched_key scenario_A))) = []
   \<and> failed (fst (Reconcile conflicting_client watch_config watched_key scenario_A))
   \<and> \<not> failed (fst (Reconcile store_client watch_config watched_key scenario_B))"
proof -
  have h1: "isDaprTrustBundleSecret watch_config watched_key"
    by (simp add: isDaprTrustBundleSecret_def config_defs watched_key_def)
  have h2: "Get unreachable_client watched_key scenario_A = (Inl ''connection refused'', scenario_A)"
    by (simp add: unreachable_client_def)
  have h3: "Get store_client watched_key scenario_B = (Inr scenario_B, scenario_B)"
    by (simp add: store_client_def)
  have n: "\<not> needsDaprTrustBundleSecretUpdate watch_config scenario_B"
    by (simp add: needs_unfold map_index_def config_defs payload_defs)
  have h4: "writes (fst (snd (Reconcile store_client watch_config watched_key scenario_B))) = []"
    by (simp add: Reconcile_no_write_path [OF h3 n])
  have h5: "Get conflicting_client watched_key scenario_A = (Inr scenario_A, scenario_A)"
    by (simp add: conflicting_client_def)
  have h6: "needsDaprTrustBundleSecretUpdate watch_config scenario_A"
    by (simp add: needs_unfold map_index_def config_defs payload_defs)
  from Reconcile_write_path [OF h1 h5 h6] obtain s' where h7:
    "writes (fst (snd (Reconcile conflicting_client watch_config watched_key scenario_A))) = [s']"
    by blast
  have h8: "Update conflicting_client s' scenario_A = (Some ''conflict'', scenario_A)"
    by (simp add: conflicting_client_def)
  have c: "failed (fst (Reconcile conflicting_client watch_config watched_key scenario_A))"
    using Reconcile_failure_iff [of conflicting_client watch_config watched_key scenario_A]
      h1 h5 h7 h8 by auto
  from Reconcile_failure_iff [of unreachable_client watch_config watched_key scenario_A]
    Reconcile_failure_iff [of store_client watch_config watched_key scenario_B]
    h1 h2 h3 h4 c
  show ?thesis by simp
qed

text \<open>
  Claim C8, as amended. On the write path the payload written differs from the payload
  read in its data map only, every field of that map other than the two destination
  fields has the value it had, and every field that was present is still present. The
  source certificate field keeps its value whenever its name is not the destination key
  field name, and the source key field keeps its value whenever its name is not the
  destination certificate field name; both hold in the default configuration.
\<close>

theorem Reconcile_frame:
  assumes "isDaprTrustBundleSecret cfg req" and "Get a req w = (Inr s, w1)"
    and "needsDaprTrustBundleSecretUpdate cfg s"
  shows "\<exists>s'. writes (fst (snd (Reconcile a cfg req w))) = [s']
     \<and> s' = s\<lparr>Data := Data s'\<rparr>
     \<and> (\<forall>k. k \<noteq> certDestKey cfg \<and> k \<noteq> keyDestKey cfg \<longrightarrow> field s' k = field s k)
     \<and> (\<forall>k. field s k \<noteq> None \<longrightarrow> field s' k \<noteq> None)
     \<and> (certSourceKey cfg \<noteq> keyDestKey cfg \<longrightarrow>
          field s' (certSourceKey cfg) = field s (certSourceKey cfg))
     \<and> (keySourceKey cfg \<noteq> certDestKey cfg \<longrightarrow>
          field s' (keySourceKey cfg) = field s (keySourceKey cfg))"
proof -
  from Reconcile_write_path[OF assms(1-3)] obtain m where
    m: "Data s = Some m" and
    wr: "writes (fst (snd (Reconcile a cfg req w))) =
       [s\<lparr>Data := Some (m(certDestKey cfg \<mapsto> fst (map_index (Some m) (certSourceKey cfg)),
                          keyDestKey cfg \<mapsto>
                            fst (map_index
                                  (Some (m(certDestKey cfg \<mapsto>
                                             fst (map_index (Some m) (certSourceKey cfg)))))
                                  (keySourceKey cfg))))\<rparr>]"
    by blast
  from assms(3) m have src: "m (certSourceKey cfg) \<noteq> None" "m (keySourceKey cfg) \<noteq> None"
    by (auto simp: needs_unfold map_index_def split: option.splits)
  show ?thesis
    unfolding wr using m src by (auto simp: field_def map_index_def split: option.splits)
qed

text \<open>
  A payload with an unrelated field \<open>ca.crt\<close> under the default configuration: the
  payload written keeps it, keeps both source fields and keeps the resource version read.
\<close>

theorem Reconcile_frame_witness:
  "isDaprTrustBundleSecret watch_config watched_key
   \<and> Get store_client watched_key sources_only = (Inr sources_only, sources_only)
   \<and> needsDaprTrustBundleSecretUpdate watch_config sources_only
   \<and> certSourceKey watch_config \<noteq> keyDestKey watch_config
   \<and> keySourceKey watch_config \<noteq> certDestKey watch_config
   \<and> field (hd (writes (fst (snd (Reconcile store_client watch_config watched_key sources_only)))))
        ''ca.crt'' = Some (slice ''ROOT'')
   \<and> field (hd (writes (fst (snd (Reconcile store_client watch_config watched_key sources_only)))))
        (certSourceKey watch_config) = Some (slice ''C1'')
   \<and> field (hd (writes (fst (snd (Reconcile store_client watch_config watched_key sources_only)))))
        (keySourceKey watch_config) = Some (slice ''K1'')
   \<and> ResourceVersion
        (hd (writes (fst (snd (Reconcile store_client watch_config watched_key sources_only)))))
       = ''7''"
proof -
  have h1: "isDaprTrustBundleSecret watch_config watched_key"
    by (simp add: isDaprTrustBundleSecret_def config_defs watched_key_def)
  have h2: "Get store_client watched_key sources_only = (Inr sources_only, sources_only)"
    by (simp add: store_client_def)
  have h3: "needsDaprTrustBundleSecretUpdate watch_config sources_only"
    by (simp add: needs_unfold map_index_def config_defs payload_defs)
  have h4: "certSourceKey watch_config \<noteq> keyDestKey watch_config"
    and h5: "keySourceKey watch_config \<noteq> certDestKey watch_config"
    by (simp_all add: config_defs)
  have k: "certDestKey watch_config = ''issuer.crt''" "keyDestKey watch_config = ''issuer.key''"
    "field sources_only ''ca.crt'' = Some (slice ''ROOT'')"
    "field sources_only (certSourceKey watch_config) = Some (slice ''C1'')"
    "field sources_only (keySourceKey watch_config) = Some (slice ''K1'')"
    "ResourceVersion sources_only = ''7''"
    by (simp_all add: config_defs payload_defs field_def)
  from Reconcile_frame [OF h1 h2 h3] h4 h5 obtain s' where
    w: "writes (fst (snd (Reconcile store_client watch_config watched_key sources_only))) = [s']"
    and r: "s' = sources_only\<lparr>Data := Data s'\<rparr>"
    and f: "\<forall>k. k \<noteq> certDestKey watch_config \<and> k \<noteq> keyDestKey watch_config
              \<longrightarrow> field s' k = field sources_only k"
    and c: "field s' (certSourceKey watch_config) = field sources_only (certSourceKey watch_config)"
    and y: "field s' (keySourceKey watch_config) = field sources_only (keySourceKey watch_config)"
    by blast
  have "field s' ''ca.crt'' = Some (slice ''ROOT'')"
    using f by (simp add: k)
  moreover have "ResourceVersion s' = ''7''"
    using r k(6) by (metis Secret.select_convs(1) Secret.surjective Secret.update_convs(2))
  ultimately show ?thesis using h1 h2 h3 h4 h5 w c y k(4,5) by simp
qed

text \<open>
  The unamended wording fails where a source field is the other pair's destination.
  Started with \<open>--dest-cert-secret-key=tls.key\<close>, line 148 stores the certificate in the
  source key field, which held \<open>K1\<close> and holds \<open>C1\<close> in the payload written. Started
  with \<open>--dest-key-secret-key=tls.crt\<close>, line 149 stores the key in the source
  certificate field, which held \<open>C1\<close> and holds \<open>K1\<close> in the payload written.
\<close>

theorem Reconcile_frame_counterexample:
  "isDaprTrustBundleSecret overlapping_config watched_key
   \<and> needsDaprTrustBundleSecretUpdate overlapping_config sources_only
   \<and> field sources_only (keySourceKey overlapping_config) = Some (slice ''K1'')
   \<and> length (writes (fst (snd (Reconcile store_client overlapping_config watched_key
                                  sources_only)))) = 1
   \<and> field (hd (writes (fst (snd (Reconcile store_client overlapping_config watched_key
                                    sources_only)))))
        (keySourceKey overlapping_config) = Some (slice ''C1'')
   \<and> isDaprTrustBundleSecret crossed_config watched_key
   \<and> needsDaprTrustBundleSecretUpdate crossed_config sources_only
   \<and> field sources_only (certSourceKey crossed_config) = Some (slice ''C1'')
   \<and> length (writes (fst (snd (Reconcile store_client crossed_config watched_key
                                  sources_only)))) = 1
   \<and> field (hd (writes (fst (snd (Reconcile store_client crossed_config watched_key
                                    sources_only)))))
        (certSourceKey crossed_config) = Some (slice ''K1'')"
  by (simp add: Reconcile_def needs_unfold map_index_def map_assign_def
      isDaprTrustBundleSecret_def Let_def config_defs payload_defs client_defs watched_key_def
      field_def)

text \<open>
  Claim C9. \<open>Reconcile\<close> never assigns into a nil data map: a payload that needs an
  update has a data map, since both of its source fields are present, so the assignments
  of lines 148 and 149 are reached with a map only and no call panics.
\<close>

theorem Reconcile_no_nil_map_panic:
  "(needsDaprTrustBundleSecretUpdate cfg s \<longrightarrow> Data s \<noteq> None)
   \<and> (\<forall>p. fst (Reconcile a cfg req w) \<noteq> Panicked p)"
  by (auto simp: Reconcile_def Let_def map_assign_def dest!: needs_Data
      split: prod.splits sum.splits option.splits)

text \<open>
  Scenario A needs an update and has a data map; a Secret without a data map does not
  make the call panic.
\<close>

theorem Reconcile_no_nil_map_panic_witness:
  "needsDaprTrustBundleSecretUpdate watch_config scenario_A
   \<and> Data scenario_A \<noteq> None
   \<and> Data no_data = None
   \<and> fst (Reconcile store_client watch_config watched_key no_data)
       \<noteq> Panicked ''assignment to entry in nil map''"
proof -
  have h: "needsDaprTrustBundleSecretUpdate watch_config scenario_A"
    by (simp add: needs_unfold map_index_def config_defs payload_defs)
  have d: "Data no_data = None" by (simp add: no_data_def)
  from Reconcile_no_nil_map_panic [of watch_config scenario_A store_client watched_key no_data]
    h d
  show ?thesis by blast
qed

text \<open>
  Claim C10. In a configuration whose destination field names are its source field
  names, \<open>needsDaprTrustBundleSecretUpdate\<close> returns false for every payload and
  \<open>Reconcile\<close> never issues a write.
\<close>

theorem aliased_config_never_updates:
  assumes "certDestKey cfg = certSourceKey cfg" and "keyDestKey cfg = keySourceKey cfg"
  shows "\<not> needsDaprTrustBundleSecretUpdate cfg s
     \<and> writes (fst (snd (Reconcile a cfg req w))) = []"
proof -
  have n: "\<not> needsDaprTrustBundleSecretUpdate cfg s'" for s' :: "'x Secret_scheme"
    using assms by (simp add: needs_unfold)
  show ?thesis
    by (auto simp: Reconcile_def Let_def n split: prod.splits sum.splits)
qed

text \<open>Scenario A under such a configuration: no update is asked for and none is written.\<close>

theorem aliased_config_never_updates_witness:
  "certDestKey aliased_config = certSourceKey aliased_config
   \<and> keyDestKey aliased_config = keySourceKey aliased_config
   \<and> \<not> needsDaprTrustBundleSecretUpdate aliased_config scenario_A
   \<and> writes (fst (snd (Reconcile store_client aliased_config watched_key scenario_A))) = []"
proof -
  have h1: "certDestKey aliased_config = certSourceKey aliased_config"
    and h2: "keyDestKey aliased_config = keySourceKey aliased_config"
    by (simp_all add: config_defs)
  from aliased_config_never_updates [OF h1 h2, of scenario_A store_client watched_key scenario_A]
    h1 h2
  show ?thesis by blast
qed

end
